theory Spec2Isabelle
  imports Complex_Main
begin

section \<open>JavaScript values\<close>

text \<open>
  The service is an Express application (\<^verbatim>\<open>src/app.js\<close>) that logs through a winston
  logger (\<^verbatim>\<open>src/logger.js\<close>). Requests, log records and response bodies are JavaScript
  values. A number is a double: only its being NaN, its sign and its being zero are ever
  inspected by the code, so a finite number is the rational it denotes. An object is its
  list of own properties in insertion order, which is the order \<^verbatim>\<open>JSON.stringify\<close> prints.
  Strings are byte strings (UTF-8).
\<close>

datatype jsnum = NaN | NegInfinity | Num rat | Infinity

datatype jsval =
    JUndefined
  | JNull
  | JBool bool
  | JNum jsnum
  | JStr string
  | JDate int
  | JArr "jsval list"
  | JObj "(string \<times> jsval) list"

type_synonym jsobj = "(string \<times> jsval) list"

text \<open>Reading, writing and removing an own property of an object.\<close>

fun obj_get :: "jsobj \<Rightarrow> string \<Rightarrow> jsval" where
  "obj_get [] k = JUndefined"
| "obj_get ((k', v) # kvs) k = (if k' = k then v else obj_get kvs k)"

fun obj_set :: "string \<Rightarrow> jsval \<Rightarrow> jsobj \<Rightarrow> jsobj" where
  "obj_set k v [] = [(k, v)]"
| "obj_set k v ((k', v') # kvs) = (if k' = k then (k, v) # kvs else (k', v') # obj_set k v kvs)"

definition obj_del :: "string \<Rightarrow> jsobj \<Rightarrow> jsobj" where
  "obj_del k kvs = filter (\<lambda>kv. fst kv \<noteq> k) kvs"

definition obj_keys :: "jsobj \<Rightarrow> string list" where
  "obj_keys kvs = map fst kvs"

text \<open>\<^verbatim>\<open>v.k\<close> on a value that is neither undefined nor null: only objects have the named
  properties the handlers read.\<close>

fun prop_of :: "jsval \<Rightarrow> string \<Rightarrow> jsval" where
  "prop_of (JObj kvs) k = obj_get kvs k"
| "prop_of _ k = JUndefined"

text \<open>Truthiness, as \<^verbatim>\<open>!x\<close>, \<^verbatim>\<open>x && y\<close> and \<^verbatim>\<open>x || y\<close> test it.\<close>

fun truthy :: "jsval \<Rightarrow> bool" where
  "truthy JUndefined = False"
| "truthy JNull = False"
| "truthy (JBool b) = b"
| "truthy (JNum n) = (n \<noteq> NaN \<and> n \<noteq> Num 0)"
| "truthy (JStr s) = (s \<noteq> [])"
| "truthy (JDate t) = True"
| "truthy (JArr xs) = True"
| "truthy (JObj kvs) = True"

definition js_or :: "jsval \<Rightarrow> jsval \<Rightarrow> jsval" where
  "js_or a b = (if truthy a then a else b)"

text \<open>Decimal and hexadecimal rendering of integers (\<^verbatim>\<open>`${n}`\<close>, \<^verbatim>\<open>n.toString(16)\<close>), as
  the engine prints an integer below \<open>10\<^sup>2\<^sup>1\<close>.\<close>

fun digits :: "nat \<Rightarrow> nat \<Rightarrow> string" where
  "digits b n =
     (if b < 2 \<or> n < b then [''0123456789abcdef'' ! n]
      else digits b (n div b) @ [''0123456789abcdef'' ! (n mod b)])"

definition Number_toString :: "int \<Rightarrow> string" where
  "Number_toString i = (if i < 0 then ''-'' @ digits 10 (nat (- i)) else digits 10 (nat i))"

definition toString16 :: "nat \<Rightarrow> string" where
  "toString16 n = digits 16 n"

section \<open>Requests, responses, faults\<close>

record fault =
  fault_name :: string
  fault_message :: string
  fault_stack :: string

record request =
  req_method :: string
  req_path :: string
  req_ip :: jsval
  req_userAgent :: jsval
  req_headers :: jsval
  req_query :: jsval

datatype payload = Json jsval | Html string | Empty

record response =
  statusCode :: nat
  body :: payload

text \<open>What a middleware does with a request: calls \<^verbatim>\<open>next()\<close>, calls \<^verbatim>\<open>next(err)\<close>, or
  answers itself (the two library middlewares always do one of the three). What a route
  handler does: sends a response, throws, or returns without answering (the request is then
  left pending).\<close>

datatype mw = Next | NextErr fault | Halt response

datatype outcome = Sent response | Threw fault | Pending

text \<open>The routes \<^verbatim>\<open>app.js\<close> registers, with the path parameter of the two parametrised ones.\<close>

datatype route =
    PostUsers
  | PostPosts
  | PerformanceTest string
  | SimulateError string
  | Health
  | NoRoute

section \<open>The libraries and the engine\<close>

text \<open>
  Everything the sources import rather than define is a parameter: the two third-party
  middlewares, Express's path matching and default 404 page, the engine's coercions of
  non-primitive values, its built-in faults, \<^verbatim>\<open>JSON.stringify\<close>, the date formats and
  winston's colouring of the level.
\<close>

record lib =
  cors_mw :: "request \<Rightarrow> mw"
  json_mw :: "request \<Rightarrow> fault + jsval"
  router :: "request \<Rightarrow> route"
  finalhandler_html :: "request \<Rightarrow> string"
  ToNumber_ext :: "jsval \<Rightarrow> jsnum"
  ToString_ext :: "jsval \<Rightarrow> string"
  JSON_stringify :: "jsval \<Rightarrow> string"
  toISOString :: "int \<Rightarrow> string"
  fmt_timestamp :: "int \<Rightarrow> string"
  colorize :: "string \<Rightarrow> string"
  engine_throw :: "string \<Rightarrow> fault"
  Error_stack :: "string \<Rightarrow> string"

text \<open>\<^verbatim>\<open>new Error(msg)\<close>.\<close>

definition new_Error :: "lib \<Rightarrow> string \<Rightarrow> fault" where
  "new_Error lib msg = \<lparr>fault_name = ''Error'', fault_message = msg, fault_stack = Error_stack lib msg\<rparr>"

text \<open>ToNumber, as \<^verbatim>\<open>isNaN(x)\<close> and \<^verbatim>\<open>x < 0\<close> apply it, and ToString, as a template
  literal applies it.\<close>

fun ToNumber :: "lib \<Rightarrow> jsval \<Rightarrow> jsnum" where
  "ToNumber lib JUndefined = NaN"
| "ToNumber lib JNull = Num 0"
| "ToNumber lib (JBool b) = Num (if b then 1 else 0)"
| "ToNumber lib (JNum n) = n"
| "ToNumber lib v = ToNumber_ext lib v"

definition isNaN :: "lib \<Rightarrow> jsval \<Rightarrow> bool" where
  "isNaN lib v = (ToNumber lib v = NaN)"

definition lt_zero :: "lib \<Rightarrow> jsval \<Rightarrow> bool" where
  "lt_zero lib v = (case ToNumber lib v of NegInfinity \<Rightarrow> True | Num r \<Rightarrow> r < 0 | _ \<Rightarrow> False)"

fun ToString :: "lib \<Rightarrow> jsval \<Rightarrow> string" where
  "ToString lib (JStr s) = s"
| "ToString lib JUndefined = ''undefined''"
| "ToString lib JNull = ''null''"
| "ToString lib (JBool b) = (if b then ''true'' else ''false'')"
| "ToString lib v = ToString_ext lib v"

section \<open>The process state\<close>

text \<open>
  The two in-memory stores of \<^verbatim>\<open>app.js\<close>, the two sinks of the logger (the records handed
  to the OpenTelemetry transport and the lines the Console transport prints), and the
  ambient sources the code reads: \<^verbatim>\<open>uuidv4()\<close>, the wall clock (\<^verbatim>\<open>Date.now()\<close>,
  \<^verbatim>\<open>new Date()\<close>), \<^verbatim>\<open>trace.getActiveSpan()\<close> and the \<^verbatim>\<open>process\<close> figures. A source is
  the sequence of the answers it will give and the number of answers given so far.
\<close>

record span_context =
  traceId :: string
  spanId :: string
  traceFlags :: nat

record world =
  users :: "string \<rightharpoonup> jsval"
  posts :: "string \<rightharpoonup> jsval"
  durable :: "jsobj list"
  console :: "string list"
  uuid_src :: "nat \<Rightarrow> string"
  uuid_cnt :: nat
  clock_src :: "nat \<Rightarrow> int"
  clock_cnt :: nat
  span_src :: "nat \<Rightarrow> span_context option"
  span_cnt :: nat
  process_uptime :: jsval
  process_memoryUsage :: jsval
  process_cpuUsage :: jsval

definition uuidv4 :: "world \<Rightarrow> string \<times> world" where
  "uuidv4 w = (uuid_src w (uuid_cnt w), w\<lparr>uuid_cnt := Suc (uuid_cnt w)\<rparr>)"

definition Date_now :: "world \<Rightarrow> int \<times> world" where
  "Date_now w = (clock_src w (clock_cnt w), w\<lparr>clock_cnt := Suc (clock_cnt w)\<rparr>)"

definition getActiveSpan :: "world \<Rightarrow> span_context option \<times> world" where
  "getActiveSpan w = (span_src w (span_cnt w), w\<lparr>span_cnt := Suc (span_cnt w)\<rparr>)"

section \<open>The logger (\<^verbatim>\<open>src/logger.js\<close>)\<close>

text \<open>The first format of the logger: the identifiers of the active span, if there is one,
  are written into the record.\<close>

definition traceFormat :: "span_context option \<Rightarrow> jsobj \<Rightarrow> jsobj" where
  "traceFormat span0 info =
     (case span0 of
        None \<Rightarrow> info
      | Some spanContext \<Rightarrow>
          obj_set ''trace_flags'' (JStr (toString16 (traceFlags spanContext)))
            (obj_set ''span_id'' (JStr (spanId spanContext))
              (obj_set ''trace_id'' (JStr (traceId spanContext)) info)))"

text \<open>\<^verbatim>\<open>prettyLog\<close>: the two destructurings leave \<^verbatim>\<open>cleanMeta\<close>; the line is the template
  literal, with the indented \<^verbatim>\<open>JSON.stringify(cleanMeta, null, 2)\<close> when \<^verbatim>\<open>cleanMeta\<close> has
  a key.\<close>

definition meta_of :: "jsobj \<Rightarrow> jsobj" where
  "meta_of info = obj_del ''event'' (obj_del ''timestamp'' (obj_del ''message'' (obj_del ''level'' info)))"

definition cleanMeta :: "jsobj \<Rightarrow> jsobj" where
  "cleanMeta info =
     obj_del ''timestamp'' (obj_del ''service'' (obj_del ''trace_flags''
       (obj_del ''span_id'' (obj_del ''trace_id'' (meta_of info)))))"

definition indent_newlines :: "string \<Rightarrow> string" where
  "indent_newlines s = concat (map (\<lambda>c. if c = CHR 0x0A then [CHR 0x0A, CHR '' '', CHR '' ''] else [c]) s)"

definition prettyLog :: "lib \<Rightarrow> jsobj \<Rightarrow> string" where
  "prettyLog lib info =
     (let metaString =
            (if length (obj_keys (cleanMeta info)) \<noteq> 0
             then [CHR 0x0A, CHR '' '', CHR '' ''] @ indent_newlines (JSON_stringify lib (JObj (cleanMeta info)))
             else [])
      in ToString lib (obj_get info ''timestamp'') @ '' ['' @ ToString lib (obj_get info ''level'') @ ''] ''
         @ ToString lib (obj_get info ''event'') @ '': '' @ ToString lib (obj_get info ''message'') @ metaString)"

text \<open>The Console transport's own format: the level is coloured, then \<^verbatim>\<open>prettyLog\<close>
  renders the line. It works on a copy, so the record of the other transport keeps its
  plain level.\<close>

definition console_format :: "lib \<Rightarrow> jsobj \<Rightarrow> string" where
  "console_format lib info =
     prettyLog lib (obj_set ''level'' (JStr (colorize lib (ToString lib (obj_get info ''level'')))) info)"

text \<open>
  \<^verbatim>\<open>logger.info(obj)\<close>, \<^verbatim>\<open>logger.warn(obj)\<close>, \<^verbatim>\<open>logger.error(obj)\<close>: the level and the
  default meta (\<^verbatim>\<open>service\<close>) are written into the caller's object, the logger's formats
  run (trace context, then the timestamp, which replaces a timestamp of the caller's;
  \<^verbatim>\<open>errors({stack: true})\<close> changes nothing, as no call passes an Error object), and the
  record goes to both transports, the OpenTelemetry one first. Every call of \<^verbatim>\<open>app.js\<close>
  passes one object with a non-empty \<^verbatim>\<open>message\<close>, which is the case modelled. A call
  returns: what winston and the transports do when an export fails is inside those
  libraries and is not part of the model. The hook of \<^verbatim>\<open>src/tracing.js\<close>, which writes the
  same three trace fields when the instrumentation is preloaded, is not part of it either.
\<close>

definition defaultMeta :: "jsobj \<Rightarrow> jsobj" where
  "defaultMeta info = obj_set ''service'' (JStr ''nodejs-signoz-service'') info"

definition logger_format :: "lib \<Rightarrow> span_context option \<Rightarrow> int \<Rightarrow> jsobj \<Rightarrow> jsobj" where
  "logger_format lib span0 now info =
     obj_set ''timestamp'' (JStr (fmt_timestamp lib now)) (traceFormat span0 info)"

definition logger_log :: "lib \<Rightarrow> string \<Rightarrow> jsobj \<Rightarrow> world \<Rightarrow> world" where
  "logger_log lib level obj w =
     (let info = defaultMeta (obj_set ''level'' (JStr level) obj);
          (span0, w1) = getActiveSpan w;
          (now, w2) = Date_now w1;
          info' = logger_format lib span0 now info
      in w2\<lparr>durable := durable w2 @ [info'],
             console := console w2 @ [console_format lib info']\<rparr>)"

section \<open>The application (\<^verbatim>\<open>src/app.js\<close>)\<close>

text \<open>The pictographs that open the log messages, as their UTF-8 bytes.\<close>

definition glowing_star :: string where "glowing_star = [CHR 0xF0, CHR 0x9F, CHR 0x8C, CHR 0x9F]"
definition check_mark :: string where "check_mark = [CHR 0xE2, CHR 0x9C, CHR 0x85]"
definition warning_sign :: string where "warning_sign = [CHR 0xE2, CHR 0x9A, CHR 0xA0, CHR 0xEF, CHR 0xB8, CHR 0x8F]"
definition bust :: string where "bust = [CHR 0xF0, CHR 0x9F, CHR 0x91, CHR 0xA4]"
definition cross_mark :: string where "cross_mark = [CHR 0xE2, CHR 0x9D, CHR 0x8C]"
definition memo :: string where "memo = [CHR 0xF0, CHR 0x9F, CHR 0x93, CHR 0x9D]"
definition rocket :: string where "rocket = [CHR 0xF0, CHR 0x9F, CHR 0x9A, CHR 0x80]"
definition arrows :: string where "arrows = [CHR 0xF0, CHR 0x9F, CHR 0x94, CHR 0x84]"
definition collision :: string where "collision = [CHR 0xF0, CHR 0x9F, CHR 0x92, CHR 0xA5]"
definition beating_heart :: string where "beating_heart = [CHR 0xF0, CHR 0x9F, CHR 0x92, CHR 0x93]"
definition siren :: string where "siren = [CHR 0xF0, CHR 0x9F, CHR 0x9A, CHR 0xA8]"

subsection \<open>The request logging middleware and its \<^verbatim>\<open>finish\<close> listener\<close>

text \<open>The middleware is the first of the stack: \<^verbatim>\<open>express.json()\<close> has not run, and
  \<^verbatim>\<open>req.body\<close> is still undefined in the record. It returns what the listener's closure
  keeps: the request id and the start time.\<close>

definition requestLogger :: "lib \<Rightarrow> request \<Rightarrow> world \<Rightarrow> (string \<times> int) \<times> world" where
  "requestLogger lib req w =
     (let (requestId, w1) = uuidv4 w;
          (startTime, w2) = Date_now w1;
          (t, w3) = Date_now w2;
          w4 = logger_log lib ''info''
                 [(''event'', JStr ''REQUEST_RECEIVED''),
                  (''message'', JStr (glowing_star @ '' New incoming request'')),
                  (''method'', JStr (req_method req)),
                  (''path'', JStr (req_path req)),
                  (''requestId'', JStr requestId),
                  (''ipAddress'', req_ip req),
                  (''userAgent'', req_userAgent req),
                  (''headers'', req_headers req),
                  (''query'', req_query req),
                  (''body'', JUndefined),
                  (''timestamp'', JStr (toISOString lib t))] w3
      in ((requestId, startTime), w4))"

definition on_finish :: "lib \<Rightarrow> request \<Rightarrow> string \<Rightarrow> int \<Rightarrow> response \<Rightarrow> world \<Rightarrow> world" where
  "on_finish lib req requestId startTime res w =
     (let (now, w1) = Date_now w;
          duration = now - startTime;
          (t, w2) = Date_now w1
      in logger_log lib ''info''
           [(''event'', JStr ''REQUEST_COMPLETED''),
            (''message'', JStr (check_mark @ '' Request processed'')),
            (''method'', JStr (req_method req)),
            (''path'', JStr (req_path req)),
            (''requestId'', JStr requestId),
            (''statusCode'', JNum (Num (of_nat (statusCode res)))),
            (''duration'', JStr (Number_toString duration @ ''ms'')),
            (''timestamp'', JStr (toISOString lib t))] w2)"

subsection \<open>\<^verbatim>\<open>POST /users\<close>\<close>

text \<open>Destructuring \<^verbatim>\<open>req.body\<close> throws a TypeError when it is undefined or null.\<close>

definition destructure :: "lib \<Rightarrow> jsval \<Rightarrow> fault + jsval" where
  "destructure lib v =
     (if v = JUndefined \<or> v = JNull then Inl (engine_throw lib ''destructure req.body'') else Inr v)"

definition validate :: "lib \<Rightarrow> jsval \<Rightarrow> jsval \<Rightarrow> jsval \<Rightarrow> jsval list" where
  "validate lib username email age =
     (let errors0 = [];
          errors1 = (if \<not> truthy username then errors0 @ [JStr ''Username is required''] else errors0);
          errors2 = (if \<not> truthy email then errors1 @ [JStr ''Email is required''] else errors1);
          errors3 = (if truthy age \<and> (isNaN lib age \<or> lt_zero lib age)
                     then errors2 @ [JStr ''Invalid age''] else errors2)
      in errors3)"

definition post_users :: "lib \<Rightarrow> string \<Rightarrow> jsval \<Rightarrow> world \<Rightarrow> world \<times> outcome" where
  "post_users lib requestId req_body w =
     (case destructure lib req_body of
        Inl error \<Rightarrow>
          (logger_log lib ''error''
             [(''event'', JStr ''USER_CREATION_ERROR''),
              (''message'', JStr (cross_mark @ '' Error creating user'')),
              (''requestId'', JStr requestId),
              (''error'', JStr (fault_message error)),
              (''stack'', JStr (fault_stack error))] w,
           Sent \<lparr>statusCode = 500, body = Json (JObj [(''error'', JStr ''Failed to create user'')])\<rparr>)
      | Inr b \<Rightarrow>
          (let username = prop_of b ''username'';
               email = prop_of b ''email'';
               age = prop_of b ''age'';
               errors = validate lib username email age
           in if length errors > 0 then
                (logger_log lib ''warn''
                   [(''event'', JStr ''VALIDATION_FAILED''),
                    (''message'', JStr (warning_sign @ '' User creation validation failed'')),
                    (''requestId'', JStr requestId),
                    (''errors'', JArr errors),
                    (''userData'', JObj [(''username'', username), (''email'', email), (''age'', age)])] w,
                 Sent \<lparr>statusCode = 400, body = Json (JObj [(''errors'', JArr errors)])\<rparr>)
              else
                (let (userId, w1) = uuidv4 w;
                     (now, w2) = Date_now w1;
                     user = JObj [(''id'', JStr userId), (''username'', username), (''email'', email),
                                  (''age'', age), (''createdAt'', JDate now)];
                     w3 = w2\<lparr>users := (users w2)(userId \<mapsto> user)\<rparr>;
                     w4 = logger_log lib ''info''
                            [(''event'', JStr ''USER_CREATED''),
                             (''message'', JStr (bust @ '' New user created successfully'')),
                             (''requestId'', JStr requestId),
                             (''userId'', JStr userId),
                             (''username'', username)] w3
                 in (w4, Sent \<lparr>statusCode = 201, body = Json user\<rparr>))))"

subsection \<open>\<^verbatim>\<open>POST /posts\<close>\<close>

text \<open>\<^verbatim>\<open>users.has(userId)\<close>: the keys of the store are the id strings.\<close>

definition users_has :: "(string \<rightharpoonup> jsval) \<Rightarrow> jsval \<Rightarrow> bool" where
  "users_has m k = (case k of JStr s \<Rightarrow> m s \<noteq> None | _ \<Rightarrow> False)"

definition post_posts :: "lib \<Rightarrow> string \<Rightarrow> jsval \<Rightarrow> world \<Rightarrow> world \<times> outcome" where
  "post_posts lib requestId req_body w =
     (case destructure lib req_body of
        Inl error \<Rightarrow>
          (logger_log lib ''error''
             [(''event'', JStr ''POST_CREATION_ERROR''),
              (''message'', JStr (cross_mark @ '' Error creating post'')),
              (''requestId'', JStr requestId),
              (''error'', JStr (fault_message error)),
              (''stack'', JStr (fault_stack error))] w,
           Sent \<lparr>statusCode = 500, body = Json (JObj [(''error'', JStr ''Failed to create post'')])\<rparr>)
      | Inr b \<Rightarrow>
          (let userId = prop_of b ''userId'';
               title = prop_of b ''title'';
               content = prop_of b ''content''
           in if \<not> users_has (users w) userId then
                (logger_log lib ''warn''
                   [(''event'', JStr ''POST_CREATION_FAILED''),
                    (''message'', JStr (warning_sign @ '' Post creation failed - User not found'')),
                    (''requestId'', JStr requestId),
                    (''userId'', userId)] w,
                 Sent \<lparr>statusCode = 404, body = Json (JObj [(''error'', JStr ''User not found'')])\<rparr>)
              else
                (let (postId, w1) = uuidv4 w;
                     (now, w2) = Date_now w1;
                     post = JObj [(''id'', JStr postId), (''userId'', userId), (''title'', title),
                                  (''content'', content), (''createdAt'', JDate now),
                                  (''likes'', JNum (Num 0))];
                     w3 = w2\<lparr>posts := (posts w2)(postId \<mapsto> post)\<rparr>;
                     w4 = logger_log lib ''info''
                            [(''event'', JStr ''POST_CREATED''),
                             (''message'', JStr (memo @ '' New post created'')),
                             (''requestId'', JStr requestId),
                             (''postId'', JStr postId),
                             (''userId'', userId)] w3
                 in (w4, Sent \<lparr>statusCode = 201, body = Json post\<rparr>))))"

subsection \<open>\<^verbatim>\<open>GET /performance-test/:scenario\<close>\<close>

text \<open>The \<^verbatim>\<open>switch\<close> of the \<^verbatim>\<open>try\<close> block: the three known scenarios compute, allocate or
  wait and fall out of the switch; any other value throws.\<close>

definition performance_switch :: "lib \<Rightarrow> string \<Rightarrow> fault + unit" where
  "performance_switch lib scenario =
     (if scenario = ''cpu-intensive'' then Inr ()
      else if scenario = ''memory-intensive'' then Inr ()
      else if scenario = ''async-operations'' then Inr ()
      else Inl (new_Error lib ''Invalid scenario''))"

definition performance_test :: "lib \<Rightarrow> string \<Rightarrow> string \<Rightarrow> world \<Rightarrow> world \<times> outcome" where
  "performance_test lib requestId scenario w =
     (let (startTime, w1) = Date_now w;
          (t0, w2) = Date_now w1;
          w3 = logger_log lib ''info''
                 [(''event'', JStr ''PERFORMANCE_TEST_STARTED''),
                  (''message'', JStr (rocket @ '' Starting performance test'')),
                  (''requestId'', JStr requestId),
                  (''scenario'', JStr scenario),
                  (''startTime'', JStr (toISOString lib t0))] w2
      in case performance_switch lib scenario of
           Inr _ \<Rightarrow>
             (let (now, w4) = Date_now w3;
                  duration = now - startTime;
                  (t1, w5) = Date_now w4;
                  w6 = logger_log lib ''info''
                         [(''event'', JStr ''PERFORMANCE_TEST_COMPLETED''),
                          (''message'', JStr (check_mark @ '' Performance test completed'')),
                          (''requestId'', JStr requestId),
                          (''scenario'', JStr scenario),
                          (''duration'', JStr (Number_toString duration @ ''ms'')),
                          (''endTime'', JStr (toISOString lib t1))] w5
              in (w6, Sent \<lparr>statusCode = 200,
                              body = Json (JObj [(''scenario'', JStr scenario),
                                                 (''duration'', JStr (Number_toString duration @ ''ms'')),
                                                 (''result'', JStr ''Success'')])\<rparr>))
         | Inl error \<Rightarrow>
             (let (now, w4) = Date_now w3;
                  w5 = logger_log lib ''error''
                         [(''event'', JStr ''PERFORMANCE_TEST_FAILED''),
                          (''message'', JStr (cross_mark @ '' Performance test failed'')),
                          (''requestId'', JStr requestId),
                          (''scenario'', JStr scenario),
                          (''error'', JStr (fault_message error)),
                          (''duration'', JStr (Number_toString (now - startTime) @ ''ms''))] w4
              in (w5, Sent \<lparr>statusCode = 500,
                              body = Json (JObj [(''error'', JStr ''Performance test failed'')])\<rparr>)))"

subsection \<open>\<^verbatim>\<open>GET /simulate-error/:type\<close>\<close>

text \<open>The \<^verbatim>\<open>switch\<close> of the \<^verbatim>\<open>try\<close> block. The first three cases evaluate an expression
  on which the engine throws (an undeclared variable, a method a number does not have,
  \<^verbatim>\<open>eval\<close> of an unfinished statement); the last two throw an Error of their own.\<close>

definition simulate_switch :: "lib \<Rightarrow> string \<Rightarrow> fault + unit" where
  "simulate_switch lib errorType =
     (if errorType = ''reference'' then Inl (engine_throw lib ''nonExistentVariable.toString()'')
      else if errorType = ''type'' then Inl (engine_throw lib ''num.split()'')
      else if errorType = ''syntax'' then Inl (engine_throw lib ''eval(if (true) {)'')
      else if errorType = ''custom'' then Inl (new_Error lib ''Custom application error'')
      else Inl (new_Error lib ''Unknown error type''))"

text \<open>The handler answers only in its \<^verbatim>\<open>catch\<close> block: a switch that fell through would
  leave the request without a response.\<close>

definition simulate_error :: "lib \<Rightarrow> string \<Rightarrow> string \<Rightarrow> world \<Rightarrow> world \<times> outcome" where
  "simulate_error lib requestId errorType w =
     (let w1 = logger_log lib ''info''
                 [(''event'', JStr ''ERROR_SIMULATION_STARTED''),
                  (''message'', JStr (arrows @ '' Starting error simulation'')),
                  (''requestId'', JStr requestId),
                  (''errorType'', JStr errorType)] w
      in case simulate_switch lib errorType of
           Inr _ \<Rightarrow> (w1, Pending)
         | Inl error \<Rightarrow>
             (let (t, w2) = Date_now w1;
                  w3 = logger_log lib ''error''
                         [(''event'', JStr ''ERROR_SIMULATION_TRIGGERED''),
                          (''message'', JStr (collision @ '' Simulated error occurred'')),
                          (''requestId'', JStr requestId),
                          (''errorType'', JStr errorType),
                          (''error'', JStr (fault_message error)),
                          (''stack'', JStr (fault_stack error)),
                          (''timestamp'', JStr (toISOString lib t))] w2
              in (w3, Sent \<lparr>statusCode = 500,
                              body = Json (JObj [(''error'', JStr ''Simulated error''),
                                                 (''type'', JStr errorType),
                                                 (''message'', JStr (fault_message error))])\<rparr>)))"

subsection \<open>\<^verbatim>\<open>GET /health\<close>\<close>

definition get_health :: "lib \<Rightarrow> string \<Rightarrow> world \<Rightarrow> world \<times> outcome" where
  "get_health lib requestId w =
     (let (t, w1) = Date_now w;
          health = JObj [(''uptime'', process_uptime w1),
                         (''timestamp'', JStr (toISOString lib t)),
                         (''memory'', process_memoryUsage w1),
                         (''cpu'', process_cpuUsage w1)];
          w2 = logger_log lib ''info''
                 [(''event'', JStr ''HEALTH_CHECK''),
                  (''message'', JStr (beating_heart @ '' Health check performed'')),
                  (''requestId'', JStr requestId),
                  (''health'', health)] w1
      in (w2, Sent \<lparr>statusCode = 200, body = Json health\<rparr>))"

subsection \<open>The global error handler\<close>

text \<open>The handler has no branch and no \<^verbatim>\<open>try\<close>: it logs and answers.\<close>

definition errorHandler :: "lib \<Rightarrow> request \<Rightarrow> string \<Rightarrow> fault \<Rightarrow> world \<Rightarrow> world \<times> response" where
  "errorHandler lib req requestId err w =
     (let (t, w1) = Date_now w;
          w2 = logger_log lib ''error''
                 [(''event'', JStr ''UNHANDLED_ERROR''),
                  (''message'', JStr (siren @ '' Unhandled application error'')),
                  (''requestId'', js_or (JStr requestId) (JStr ''unknown'')),
                  (''error'', JStr (fault_message err)),
                  (''stack'', JStr (fault_stack err)),
                  (''path'', JStr (req_path req)),
                  (''method'', JStr (req_method req)),
                  (''timestamp'', JStr (toISOString lib t))] w1
      in (w2, \<lparr>statusCode = 500,
                 body = Json (JObj [(''error'', JStr ''Internal Server Error''),
                                    (''requestId'', js_or (JStr requestId) (JStr ''unknown'')),
                                    (''message'', JStr (fault_message err))])\<rparr>))"

subsection \<open>The middleware stack\<close>

text \<open>The router runs the first route that matches; a request that matches none gets
  Express's own 404 page.\<close>

definition dispatch :: "lib \<Rightarrow> request \<Rightarrow> string \<Rightarrow> jsval \<Rightarrow> world \<Rightarrow> world \<times> outcome" where
  "dispatch lib req requestId req_body w =
     (case router lib req of
        PostUsers \<Rightarrow> post_users lib requestId req_body w
      | PostPosts \<Rightarrow> post_posts lib requestId req_body w
      | PerformanceTest scenario \<Rightarrow> performance_test lib requestId scenario w
      | SimulateError errorType \<Rightarrow> simulate_error lib requestId errorType w
      | Health \<Rightarrow> get_health lib requestId w
      | NoRoute \<Rightarrow> (w, Sent \<lparr>statusCode = 404, body = Html (finalhandler_html lib req)\<rparr>))"

text \<open>After the logging middleware come \<^verbatim>\<open>cors()\<close>, \<^verbatim>\<open>express.json()\<close> and the routes. An
  error passed to \<^verbatim>\<open>next\<close>, or thrown by a handler, skips to the global error handler. The
  result is the response sent, if one was.\<close>

definition stack_after_logger :: "lib \<Rightarrow> request \<Rightarrow> string \<Rightarrow> world \<Rightarrow> world \<times> response option" where
  "stack_after_logger lib req requestId w =
     (case cors_mw lib req of
        Halt res \<Rightarrow> (w, Some res)
      | NextErr err \<Rightarrow> map_prod id Some (errorHandler lib req requestId err w)
      | Next \<Rightarrow>
          (case json_mw lib req of
             Inl err \<Rightarrow> map_prod id Some (errorHandler lib req requestId err w)
           | Inr req_body \<Rightarrow>
               (case dispatch lib req requestId req_body w of
                  (w', Threw err) \<Rightarrow> map_prod id Some (errorHandler lib req requestId err w')
                | (w', Sent res) \<Rightarrow> (w', Some res)
                | (w', Pending) \<Rightarrow> (w', None))))"

text \<open>One request through the application, from its arrival to the end of its response;
  requests are taken one at a time. The \<^verbatim>\<open>finish\<close> listener runs when a response has been
  sent, whoever sent it (the client is taken to stay connected until then); a request no
  one answers stays open, and nothing more is logged for it.\<close>

definition app :: "lib \<Rightarrow> request \<Rightarrow> world \<Rightarrow> world \<times> response option" where
  "app lib req w =
     (let ((requestId, startTime), w1) = requestLogger lib req w;
          (w2, answer) = stack_after_logger lib req requestId w1
      in case answer of
           Some res \<Rightarrow> (on_finish lib req requestId startTime res w2, Some res)
         | None \<Rightarrow> (w2, None))"

section \<open>Observing a run\<close>

text \<open>The record a call of the logger hands to its transports, given the span that is
  active and the time the clock shows when the call is made.\<close>

definition log_record :: "lib \<Rightarrow> string \<Rightarrow> jsobj \<Rightarrow> world \<Rightarrow> jsobj" where
  "log_record lib level obj w =
     logger_format lib (span_src w (span_cnt w)) (clock_src w (clock_cnt w))
       (defaultMeta (obj_set ''level'' (JStr level) obj))"

text \<open>The values of property \<open>k\<close> in the records of event \<open>e\<close>, in the order of emission;
  and level, event and request id of a record.\<close>

definition attr_of :: "string \<Rightarrow> string \<Rightarrow> jsobj list \<Rightarrow> jsval list" where
  "attr_of e k recs = map (\<lambda>r. obj_get r k) (filter (\<lambda>r. obj_get r ''event'' = JStr e) recs)"

definition summary :: "jsobj \<Rightarrow> jsval \<times> jsval \<times> jsval" where
  "summary r = (obj_get r ''level'', obj_get r ''event'', obj_get r ''requestId'')"

text \<open>Whether \<^verbatim>\<open>cors()\<close> or \<^verbatim>\<open>express.json()\<close> passes an error on for the request, which is
  how a request comes to the global error handler.\<close>

definition reaches_errorHandler :: "lib \<Rightarrow> request \<Rightarrow> bool" where
  "reaches_errorHandler lib req =
     (case cors_mw lib req of
        NextErr err \<Rightarrow> True
      | Halt res \<Rightarrow> False
      | Next \<Rightarrow> (case json_mw lib req of Inl err \<Rightarrow> True | Inr b \<Rightarrow> False))"

text \<open>The number of clock readings taken before the \<^verbatim>\<open>finish\<close> listener takes its own.\<close>

definition finish_index :: "lib \<Rightarrow> request \<Rightarrow> world \<Rightarrow> nat" where
  "finish_index lib req w =
     clock_cnt (fst (stack_after_logger lib req (uuid_src w (uuid_cnt w)) (snd (requestLogger lib req w))))"

text \<open>\<^verbatim>\<open>typeof v === 'number'\<close>.\<close>

definition is_number :: "jsval \<Rightarrow> bool" where
  "is_number v = (case v of JNum n \<Rightarrow> True | _ \<Rightarrow> False)"

text \<open>The three events of the request lifecycle, and whether a handler answered.\<close>

definition lifecycle :: "string \<Rightarrow> bool" where
  "lifecycle e = (e = ''REQUEST_RECEIVED'' \<or> e = ''REQUEST_COMPLETED'' \<or> e = ''UNHANDLED_ERROR'')"

definition is_Sent :: "outcome \<Rightarrow> bool" where
  "is_Sent out = (case out of Sent res \<Rightarrow> True | _ \<Rightarrow> False)"

section \<open>Sample inputs\<close>

text \<open>A library environment whose router and body parser give the same answer for every
  request, a freshly started process, and a request.\<close>

definition sample_lib :: "route \<Rightarrow> fault + jsval \<Rightarrow> lib" where
  "sample_lib rt parsed =
     \<lparr>cors_mw = (\<lambda>r. Next),
      json_mw = (\<lambda>r. parsed),
      router = (\<lambda>r. rt),
      finalhandler_html = (\<lambda>r. ''Cannot '' @ req_method r @ '' '' @ req_path r),
      ToNumber_ext = (\<lambda>v. NaN),
      ToString_ext = (\<lambda>v. ''[object Object]''),
      JSON_stringify = (\<lambda>v. ''{}''),
      toISOString = (\<lambda>t. Number_toString t),
      fmt_timestamp = (\<lambda>t. Number_toString t),
      colorize = (\<lambda>s. s),
      engine_throw = (\<lambda>s. \<lparr>fault_name = ''TypeError'', fault_message = s, fault_stack = ''TypeError: '' @ s\<rparr>),
      Error_stack = (\<lambda>m. ''Error: '' @ m)\<rparr>"

definition sample_world :: world where
  "sample_world =
     \<lparr>users = Map.empty, posts = Map.empty, durable = [], console = [],
      uuid_src = (\<lambda>n. ''id-'' @ Number_toString (int n)), uuid_cnt = 0,
      clock_src = (\<lambda>n. 1000 + 5 * int n), clock_cnt = 0,
      span_src = (\<lambda>n. None), span_cnt = 0,
      process_uptime = JNum (Num 12), process_memoryUsage = JObj [], process_cpuUsage = JObj []\<rparr>"

definition sample_request :: "string \<Rightarrow> string \<Rightarrow> request" where
  "sample_request m p =
     \<lparr>req_method = m, req_path = p, req_ip = JStr ''127.0.0.1'', req_userAgent = JStr ''curl'',
      req_headers = JObj [], req_query = JObj []\<rparr>"


text \<open>The same process with a span active at every emission.\<close>

definition traced_world :: world where
  "traced_world = sample_world\<lparr>span_src := (\<lambda>n. Some \<lparr>traceId = ''4bf92f3577b34da6'', spanId = ''00f067aa0ba902b7'', traceFlags = 1\<rparr>)\<rparr>"

text \<open>The same process with a wall clock that is being set back.\<close>

definition backward_world :: world where
  "backward_world = sample_world\<lparr>clock_src := (\<lambda>n. 1000 - 5 * int n)\<rparr>"

section \<open>Properties of objects and of the logger\<close>

lemma obj_get_set: "obj_get (obj_set k v kvs) k' = (if k' = k then v else obj_get kvs k')"
  by (induction kvs) auto



lemma obj_get_absent: "k \<notin> set (obj_keys kvs) \<Longrightarrow> obj_get kvs k = JUndefined"
  by (induction kvs) (auto simp: obj_keys_def)

lemma logger_log_world [simp]:
  "users (logger_log lib l obj w) = users w"
  "posts (logger_log lib l obj w) = posts w"
  "uuid_src (logger_log lib l obj w) = uuid_src w"
  "uuid_cnt (logger_log lib l obj w) = uuid_cnt w"
  "clock_src (logger_log lib l obj w) = clock_src w"
  "clock_cnt (logger_log lib l obj w) = Suc (clock_cnt w)"
  "span_src (logger_log lib l obj w) = span_src w"
  "span_cnt (logger_log lib l obj w) = Suc (span_cnt w)"
  "process_uptime (logger_log lib l obj w) = process_uptime w"
  "process_memoryUsage (logger_log lib l obj w) = process_memoryUsage w"
  "process_cpuUsage (logger_log lib l obj w) = process_cpuUsage w"
  by (simp_all add: logger_log_def getActiveSpan_def Date_now_def Let_def)

lemma durable_logger_log:
  "durable (logger_log lib l obj w) = durable w @ [log_record lib l obj w]"
  by (simp add: logger_log_def log_record_def getActiveSpan_def Date_now_def Let_def)


lemma obj_get_traceFormat:
  "k \<noteq> ''trace_id'' \<Longrightarrow> k \<noteq> ''span_id'' \<Longrightarrow> k \<noteq> ''trace_flags'' \<Longrightarrow>
   obj_get (traceFormat sp info) k = obj_get info k"
  by (simp add: traceFormat_def obj_get_set split: option.split)

lemma log_record_get:
  "k \<noteq> ''level'' \<Longrightarrow> k \<noteq> ''service'' \<Longrightarrow> k \<noteq> ''trace_id'' \<Longrightarrow> k \<noteq> ''span_id'' \<Longrightarrow>
   k \<noteq> ''trace_flags'' \<Longrightarrow> k \<noteq> ''timestamp'' \<Longrightarrow>
   obj_get (log_record lib l obj w) k = obj_get obj k"
  by (simp add: log_record_def logger_format_def defaultMeta_def obj_get_set obj_get_traceFormat)

lemma log_record_event [simp]: "obj_get (log_record lib l obj w) ''event'' = obj_get obj ''event''"
  by (simp add: log_record_get)

lemma log_record_requestId [simp]: "obj_get (log_record lib l obj w) ''requestId'' = obj_get obj ''requestId''"
  by (simp add: log_record_get)

lemma log_record_duration [simp]: "obj_get (log_record lib l obj w) ''duration'' = obj_get obj ''duration''"
  by (simp add: log_record_get)

lemma log_record_statusCode [simp]: "obj_get (log_record lib l obj w) ''statusCode'' = obj_get obj ''statusCode''"
  by (simp add: log_record_get)

lemma log_record_level [simp]: "obj_get (log_record lib l obj w) ''level'' = JStr l"
  by (simp add: log_record_def logger_format_def defaultMeta_def obj_get_set obj_get_traceFormat)

lemma attr_of_logger_log:
  "attr_of e k (durable (logger_log lib l obj w)) =
     attr_of e k (durable w) @
       (if obj_get obj ''event'' = JStr e then [obj_get (log_record lib l obj w) k] else [])"
  by (simp add: attr_of_def durable_logger_log)

lemma summary_logger_log:
  "map summary (durable (logger_log lib l obj w)) =
     map summary (durable w) @ [(JStr l, obj_get obj ''event'', obj_get obj ''requestId'')]"
  by (simp add: summary_def durable_logger_log)

section \<open>Properties of the handlers and of the middleware stack\<close>

lemmas run_defs = Let_def split_def Date_now_def uuidv4_def

lemma post_users_quiet:
  "lifecycle e \<Longrightarrow> attr_of e k (durable (fst (post_users lib rid b w))) = attr_of e k (durable w)"
  by (auto simp add: lifecycle_def post_users_def run_defs attr_of_logger_log split: sum.split)

lemma post_posts_quiet:
  "lifecycle e \<Longrightarrow> attr_of e k (durable (fst (post_posts lib rid b w))) = attr_of e k (durable w)"
  by (auto simp add: lifecycle_def post_posts_def run_defs attr_of_logger_log split: sum.split)

lemma performance_test_quiet:
  "lifecycle e \<Longrightarrow> attr_of e k (durable (fst (performance_test lib rid sc w))) = attr_of e k (durable w)"
  by (auto simp add: lifecycle_def performance_test_def run_defs attr_of_logger_log split: sum.split)

lemma simulate_error_quiet:
  "lifecycle e \<Longrightarrow> attr_of e k (durable (fst (simulate_error lib rid t w))) = attr_of e k (durable w)"
  by (auto simp add: lifecycle_def simulate_error_def run_defs attr_of_logger_log split: sum.split)

lemma get_health_quiet:
  "lifecycle e \<Longrightarrow> attr_of e k (durable (fst (get_health lib rid w))) = attr_of e k (durable w)"
  by (auto simp add: lifecycle_def get_health_def run_defs attr_of_logger_log split: sum.split)

lemma dispatch_quiet:
  "lifecycle e \<Longrightarrow> attr_of e k (durable (fst (dispatch lib req rid b w))) = attr_of e k (durable w)"
  by (simp add: dispatch_def post_users_quiet post_posts_quiet performance_test_quiet
      simulate_error_quiet get_health_quiet split: route.split)

lemma post_users_Sent: "is_Sent (snd (post_users lib rid b w))"
  by (simp add: is_Sent_def post_users_def run_defs split: sum.split)

lemma post_posts_Sent: "is_Sent (snd (post_posts lib rid b w))"
  by (simp add: is_Sent_def post_posts_def run_defs split: sum.split)

lemma performance_test_Sent: "is_Sent (snd (performance_test lib rid sc w))"
  by (simp add: is_Sent_def performance_test_def run_defs split: sum.split)

lemma simulate_error_Sent: "is_Sent (snd (simulate_error lib rid t w))"
  by (simp add: is_Sent_def simulate_error_def simulate_switch_def run_defs split: sum.split)

lemma get_health_Sent: "is_Sent (snd (get_health lib rid w))"
  by (simp add: is_Sent_def get_health_def run_defs)

lemma dispatch_Sent: "is_Sent (snd (dispatch lib req rid b w))"
  by (simp add: dispatch_def post_users_Sent post_posts_Sent performance_test_Sent
      simulate_error_Sent get_health_Sent split: route.split) (simp add: is_Sent_def)

lemma stack_dispatch:
  "cors_mw lib req = Next \<Longrightarrow> json_mw lib req = Inr b \<Longrightarrow>
   fst (stack_after_logger lib req rid w) = fst (dispatch lib req rid b w) \<and>
   (\<exists>res. snd (dispatch lib req rid b w) = Sent res \<and> snd (stack_after_logger lib req rid w) = Some res)"
  using dispatch_Sent [of lib req rid b w]
  by (cases "dispatch lib req rid b w") (auto simp add: stack_after_logger_def is_Sent_def split: outcome.splits)

lemma stack_dispatch_fst:
  "cors_mw lib req = Next \<Longrightarrow> json_mw lib req = Inr b \<Longrightarrow>
   fst (stack_after_logger lib req rid w) = fst (dispatch lib req rid b w)"
  by (simp add: stack_dispatch)


lemma stack_answers: "snd (stack_after_logger lib req rid w) \<noteq> None"
proof (cases "cors_mw lib req")
  case Next
  show ?thesis
  proof (cases "json_mw lib req")
    case (Inl err)
    with Next show ?thesis
      by (simp add: stack_after_logger_def)
  next
    case (Inr b)
    with Next show ?thesis
      using stack_dispatch [of lib req b rid w] by auto
  qed
next
  case (NextErr err)
  then show ?thesis
    by (simp add: stack_after_logger_def)
next
  case (Halt res)
  then show ?thesis
    by (simp add: stack_after_logger_def)
qed

lemma errorHandler_attr:
  "k = ''requestId'' \<or> k = ''duration'' \<Longrightarrow>
   attr_of e k (durable (fst (errorHandler lib req rid err w))) =
     attr_of e k (durable w) @
       (if e = ''UNHANDLED_ERROR''
        then [if k = ''requestId'' then js_or (JStr rid) (JStr ''unknown'') else JUndefined]
        else [])"
  by (auto simp add: errorHandler_def run_defs attr_of_logger_log)

lemma stack_attr:
  "lifecycle e \<Longrightarrow> k = ''requestId'' \<or> k = ''duration'' \<Longrightarrow>
   attr_of e k (durable (fst (stack_after_logger lib req rid w))) =
     attr_of e k (durable w) @
       (if e = ''UNHANDLED_ERROR'' \<and> reaches_errorHandler lib req
        then [if k = ''requestId'' then js_or (JStr rid) (JStr ''unknown'') else JUndefined]
        else [])"
proof (cases "cors_mw lib req")
  case Next
  assume l: "lifecycle e" and k: "k = ''requestId'' \<or> k = ''duration''"
  show ?thesis
  proof (cases "json_mw lib req")
    case (Inl err)
    with Next k show ?thesis
      by (simp add: stack_after_logger_def reaches_errorHandler_def errorHandler_attr)
  next
    case (Inr b)
    with Next l show ?thesis
      by (simp add: stack_dispatch_fst dispatch_quiet reaches_errorHandler_def)
  qed
next
  case (NextErr err)
  assume "lifecycle e" and k: "k = ''requestId'' \<or> k = ''duration''"
  with NextErr show ?thesis
    by (simp add: stack_after_logger_def reaches_errorHandler_def errorHandler_attr)
next
  case (Halt res)
  then show ?thesis
    by (simp add: stack_after_logger_def reaches_errorHandler_def)
qed

lemma requestLogger_attr:
  "k = ''requestId'' \<or> k = ''duration'' \<Longrightarrow>
   attr_of e k (durable (snd (requestLogger lib req w))) =
     attr_of e k (durable w) @
       (if e = ''REQUEST_RECEIVED''
        then [if k = ''requestId'' then JStr (uuid_src w (uuid_cnt w)) else JUndefined]
        else [])"
  by (auto simp add: requestLogger_def run_defs attr_of_logger_log)

lemma requestLogger_fst:
  "fst (requestLogger lib req w) = (uuid_src w (uuid_cnt w), clock_src w (clock_cnt w))"
  by (simp add: requestLogger_def run_defs)

lemma on_finish_attr:
  "k = ''requestId'' \<or> k = ''duration'' \<Longrightarrow>
   attr_of e k (durable (on_finish lib req rid t0 res w)) =
     attr_of e k (durable w) @
       (if e = ''REQUEST_COMPLETED''
        then [if k = ''requestId'' then JStr rid
              else JStr (Number_toString (clock_src w (clock_cnt w) - t0) @ ''ms'')]
        else [])"
  by (auto simp add: on_finish_def run_defs attr_of_logger_log)

lemma app_unfold:
  "app lib req w =
     (let rid = uuid_src w (uuid_cnt w);
          w1 = snd (requestLogger lib req w);
          r = stack_after_logger lib req rid w1
      in case snd r of
           Some res \<Rightarrow> (on_finish lib req rid (clock_src w (clock_cnt w)) res (fst r), Some res)
         | None \<Rightarrow> (fst r, None))"
  by (simp add: app_def split_def Let_def requestLogger_fst split: option.split)

lemma app_Sent:
  "\<exists>res. snd (stack_after_logger lib req (uuid_src w (uuid_cnt w)) (snd (requestLogger lib req w))) = Some res
     \<and> app lib req w =
         (on_finish lib req (uuid_src w (uuid_cnt w)) (clock_src w (clock_cnt w)) res
            (fst (stack_after_logger lib req (uuid_src w (uuid_cnt w)) (snd (requestLogger lib req w)))),
          Some res)"
  using stack_answers [of lib req "uuid_src w (uuid_cnt w)" "snd (requestLogger lib req w)"]
  by (auto simp add: app_unfold Let_def)

lemma handlers_clock:
  "clock_src (fst (post_users lib rid b w)) = clock_src w \<and> clock_cnt w \<le> clock_cnt (fst (post_users lib rid b w))"
  "clock_src (fst (post_posts lib rid b w)) = clock_src w \<and> clock_cnt w \<le> clock_cnt (fst (post_posts lib rid b w))"
  "clock_src (fst (performance_test lib rid sc w)) = clock_src w \<and> clock_cnt w \<le> clock_cnt (fst (performance_test lib rid sc w))"
  "clock_src (fst (simulate_error lib rid t w)) = clock_src w \<and> clock_cnt w \<le> clock_cnt (fst (simulate_error lib rid t w))"
  "clock_src (fst (get_health lib rid w)) = clock_src w \<and> clock_cnt w \<le> clock_cnt (fst (get_health lib rid w))"
  "clock_src (fst (errorHandler lib req rid err w)) = clock_src w \<and> clock_cnt w \<le> clock_cnt (fst (errorHandler lib req rid err w))"
  by (simp_all add: post_users_def post_posts_def performance_test_def simulate_error_def
      get_health_def errorHandler_def run_defs split: sum.split)

lemma dispatch_clock:
  "clock_src (fst (dispatch lib req rid b w)) = clock_src w \<and> clock_cnt w \<le> clock_cnt (fst (dispatch lib req rid b w))"
  by (simp add: dispatch_def handlers_clock split: route.split)

lemma stack_clock:
  "clock_src (fst (stack_after_logger lib req rid w)) = clock_src w \<and>
   clock_cnt w \<le> clock_cnt (fst (stack_after_logger lib req rid w))"
proof (cases "cors_mw lib req")
  case Next
  show ?thesis
  proof (cases "json_mw lib req")
    case (Inl err)
    with Next show ?thesis
      by (simp add: stack_after_logger_def handlers_clock)
  next
    case (Inr b)
    with Next show ?thesis
      by (simp add: stack_dispatch_fst dispatch_clock)
  qed
next
  case (NextErr err)
  then show ?thesis
    by (simp add: stack_after_logger_def handlers_clock)
next
  case (Halt res)
  then show ?thesis
    by (simp add: stack_after_logger_def)
qed

lemma requestLogger_clock:
  "clock_src (snd (requestLogger lib req w)) = clock_src w"
  "clock_cnt (snd (requestLogger lib req w)) = clock_cnt w + 3"
  by (simp_all add: requestLogger_def run_defs)


lemma app_attr:
  assumes l: "lifecycle e" and k: "k = ''requestId'' \<or> k = ''duration''"
  shows "attr_of e k (durable (fst (app lib req w))) =
     attr_of e k (durable w) @
       (if e = ''REQUEST_RECEIVED''
        then [if k = ''requestId'' then JStr (uuid_src w (uuid_cnt w)) else JUndefined]
        else if e = ''UNHANDLED_ERROR''
        then (if reaches_errorHandler lib req
              then [if k = ''requestId'' then js_or (JStr (uuid_src w (uuid_cnt w))) (JStr ''unknown'')
                    else JUndefined]
              else [])
        else [if k = ''requestId'' then JStr (uuid_src w (uuid_cnt w))
              else JStr (Number_toString (clock_src w (finish_index lib req w) - clock_src w (clock_cnt w)) @ ''ms'')])"
proof -
  let ?rid = "uuid_src w (uuid_cnt w)"
  let ?w1 = "snd (requestLogger lib req w)"
  let ?w2 = "fst (stack_after_logger lib req ?rid ?w1)"
  obtain res where app: "app lib req w = (on_finish lib req ?rid (clock_src w (clock_cnt w)) res ?w2, Some res)"
    using app_Sent [of lib req w] by blast
  have c: "clock_src ?w2 (clock_cnt ?w2) = clock_src w (finish_index lib req w)"
    by (simp add: finish_index_def stack_clock requestLogger_clock)
  from l have "e = ''REQUEST_RECEIVED'' \<or> e = ''REQUEST_COMPLETED'' \<or> e = ''UNHANDLED_ERROR''"
    by (simp add: lifecycle_def)
  with l k show ?thesis
    by (auto simp add: app on_finish_attr stack_attr requestLogger_attr c)
qed

lemma attr_of_Nil [simp]: "attr_of e k [] = []"
  by (simp add: attr_of_def)

lemma sample_lib_sel [simp]:
  "cors_mw (sample_lib rt parsed) = (\<lambda>r. Next)"
  "json_mw (sample_lib rt parsed) = (\<lambda>r. parsed)"
  "router (sample_lib rt parsed) = (\<lambda>r. rt)"
  "ToNumber_ext (sample_lib rt parsed) = (\<lambda>v. NaN)"
  "fmt_timestamp (sample_lib rt parsed) = Number_toString"
  "toISOString (sample_lib rt parsed) = Number_toString"
  "colorize (sample_lib rt parsed) = (\<lambda>s. s)"
  "Error_stack (sample_lib rt parsed) = (\<lambda>m. ''Error: '' @ m)"
  by (simp_all add: sample_lib_def)

lemma sample_world_sel [simp]:
  "users sample_world = Map.empty"
  "posts sample_world = Map.empty"
  "durable sample_world = []"
  "console sample_world = []"
  "uuid_cnt sample_world = 0"
  "clock_cnt sample_world = 0"
  "span_cnt sample_world = 0"
  "uuid_src sample_world 0 = ''id-0''"
  "clock_src sample_world n = 1000 + 5 * int n"
  "span_src sample_world n = None"
  by (simp_all add: sample_world_def Number_toString_def)







lemma traced_world_sel [simp]:
  "durable traced_world = []"
  "console traced_world = []"
  "clock_cnt traced_world = 0"
  "span_cnt traced_world = 0"
  "clock_src traced_world n = 1000 + 5 * int n"
  "span_src traced_world n = Some \<lparr>traceId = ''4bf92f3577b34da6'', spanId = ''00f067aa0ba902b7'', traceFlags = 1\<rparr>"
  by (simp_all add: traced_world_def)




lemma backward_world_sel [simp]:
  "durable backward_world = []"
  "clock_cnt backward_world = 0"
  "uuid_cnt backward_world = 0"
  "clock_src backward_world n = 1000 - 5 * int n"
  by (simp_all add: backward_world_def)

lemma summary_requestLogger:
  "map summary (durable (snd (requestLogger lib req w))) =
     map summary (durable w) @ [(JStr ''info'', JStr ''REQUEST_RECEIVED'', JStr (uuid_src w (uuid_cnt w)))]"
  by (simp add: requestLogger_def run_defs summary_logger_log)

lemma summary_on_finish:
  "map summary (durable (on_finish lib req rid t0 res w)) =
     map summary (durable w) @ [(JStr ''info'', JStr ''REQUEST_COMPLETED'', JStr rid)]"
  by (simp add: on_finish_def run_defs summary_logger_log)


lemma stores_requestLogger:
  "users (snd (requestLogger lib req w)) = users w"
  "posts (snd (requestLogger lib req w)) = posts w"
  by (simp_all add: requestLogger_def run_defs)

lemma stores_on_finish:
  "users (on_finish lib req rid t0 res w) = users w"
  "posts (on_finish lib req rid t0 res w) = posts w"
  by (simp_all add: on_finish_def run_defs)

lemma app_routed:
  assumes "cors_mw lib req = Next" and "json_mw lib req = Inr b"
    and "snd (dispatch lib req (uuid_src w (uuid_cnt w)) b (snd (requestLogger lib req w))) = Sent res"
  shows "app lib req w =
     (on_finish lib req (uuid_src w (uuid_cnt w)) (clock_src w (clock_cnt w)) res
        (fst (dispatch lib req (uuid_src w (uuid_cnt w)) b (snd (requestLogger lib req w)))),
      Some res)"
  using assms stack_dispatch [OF assms(1) assms(2), of "uuid_src w (uuid_cnt w)" "snd (requestLogger lib req w)"]
  by (auto simp add: app_unfold Let_def)

lemma simulate_switch_throws: "isl (simulate_switch lib t)"
  by (simp add: simulate_switch_def)

lemma simulate_error_result:
  "snd (simulate_error lib rid t w) =
     Sent \<lparr>statusCode = 500,
           body = Json (JObj [(''error'', JStr ''Simulated error''), (''type'', JStr t),
                              (''message'', JStr (fault_message (projl (simulate_switch lib t))))])\<rparr>"
  using simulate_switch_throws [of lib t]
  by (cases "simulate_switch lib t") (simp_all add: simulate_error_def run_defs)


lemma validate_append:
  "validate lib username email age =
     (if truthy username then [] else [JStr ''Username is required'']) @
     (if truthy email then [] else [JStr ''Email is required'']) @
     (if truthy age \<and> (isNaN lib age \<or> lt_zero lib age) then [JStr ''Invalid age''] else [])"
  by (simp add: validate_def Let_def)

section \<open>The request lifecycle\<close>




section \<open>The two sinks\<close>




section \<open>Trace context\<close>



section \<open>Request timing\<close>




section \<open>Error simulation\<close>



section \<open>Creating users and posts\<close>

text \<open>
  C7. A \<^verbatim>\<open>POST /users\<close> request that reaches its route with a body object that has no
  \<^verbatim>\<open>username\<close>, an email the validation accepts (a truthy one) and an age it accepts is
  answered 400 with the body \<^verbatim>\<open>{errors: ["Username is required"]}\<close>; the only record the
  handler emits is \<^verbatim>\<open>VALIDATION_FAILED\<close> at level \<^verbatim>\<open>warn\<close> (the two lifecycle records
  around it are at level \<^verbatim>\<open>info\<close>, none is at level \<^verbatim>\<open>error\<close>); the users store is left
  as it was.
\<close>

theorem post_users_missing_username:
  assumes "cors_mw lib req = Next" and "json_mw lib req = Inr (JObj kvs)"
    and "router lib req = PostUsers"
    and "''username'' \<notin> set (obj_keys kvs)"
    and "truthy (obj_get kvs ''email'')"
    and "\<not> (truthy (obj_get kvs ''age'') \<and> (isNaN lib (obj_get kvs ''age'') \<or> lt_zero lib (obj_get kvs ''age'')))"
  shows "snd (app lib req w) =
       Some \<lparr>statusCode = 400, body = Json (JObj [(''errors'', JArr [JStr ''Username is required''])])\<rparr>
     \<and> map summary (durable (fst (app lib req w))) =
       map summary (durable w) @
         [(JStr ''info'', JStr ''REQUEST_RECEIVED'', JStr (uuid_src w (uuid_cnt w))),
          (JStr ''warn'', JStr ''VALIDATION_FAILED'', JStr (uuid_src w (uuid_cnt w))),
          (JStr ''info'', JStr ''REQUEST_COMPLETED'', JStr (uuid_src w (uuid_cnt w)))]
     \<and> users (fst (app lib req w)) = users w"
proof -
  let ?rid = "uuid_src w (uuid_cnt w)"
  let ?w1 = "snd (requestLogger lib req w)"
  let ?res = "\<lparr>statusCode = 400, body = Json (JObj [(''errors'', JArr [JStr ''Username is required''])])\<rparr>"
  have v: "validate lib (obj_get kvs ''username'') (obj_get kvs ''email'') (obj_get kvs ''age'')
      = [JStr ''Username is required'']"
    using assms(4-6) by (simp add: validate_append obj_get_absent)
  have d: "dispatch lib req ?rid (JObj kvs) ?w1 = post_users lib ?rid (JObj kvs) ?w1"
    using assms(3) by (simp add: dispatch_def)
  have s: "snd (post_users lib ?rid (JObj kvs) ?w1) = Sent ?res"
    using v by (simp add: post_users_def destructure_def Let_def)
  have t: "map summary (durable (fst (post_users lib ?rid (JObj kvs) ?w1))) =
      map summary (durable ?w1) @ [(JStr ''warn'', JStr ''VALIDATION_FAILED'', JStr ?rid)]"
    using v by (simp add: post_users_def destructure_def Let_def summary_logger_log)
  have u: "users (fst (post_users lib ?rid (JObj kvs) ?w1)) = users ?w1"
    using v by (simp add: post_users_def destructure_def Let_def)
  have "app lib req w =
     (on_finish lib req ?rid (clock_src w (clock_cnt w)) ?res (fst (post_users lib ?rid (JObj kvs) ?w1)),
      Some ?res)"
    using app_routed [OF assms(1) assms(2), of w ?res] d s by simp
  then show ?thesis
    by (simp add: summary_on_finish t summary_requestLogger stores_on_finish u stores_requestLogger)
qed

text \<open>C7, an instance: the body \<^verbatim>\<open>{email: "b@c.com", age: 25}\<close>.\<close>

theorem post_users_missing_username_witness:
  "''username'' \<notin> set (obj_keys [(''email'', JStr ''b@c.com''), (''age'', JNum (Num 25))])
   \<and> truthy (obj_get [(''email'', JStr ''b@c.com''), (''age'', JNum (Num 25))] ''email'')
   \<and> snd (app (sample_lib PostUsers (Inr (JObj [(''email'', JStr ''b@c.com''), (''age'', JNum (Num 25))])))
             (sample_request ''POST'' ''/users'') sample_world) =
       Some \<lparr>statusCode = 400, body = Json (JObj [(''errors'', JArr [JStr ''Username is required''])])\<rparr>
   \<and> map summary (durable (fst (app (sample_lib PostUsers (Inr (JObj [(''email'', JStr ''b@c.com''), (''age'', JNum (Num 25))])))
             (sample_request ''POST'' ''/users'') sample_world))) =
         [(JStr ''info'', JStr ''REQUEST_RECEIVED'', JStr ''id-0''),
          (JStr ''warn'', JStr ''VALIDATION_FAILED'', JStr ''id-0''),
          (JStr ''info'', JStr ''REQUEST_COMPLETED'', JStr ''id-0'')]
   \<and> users (fst (app (sample_lib PostUsers (Inr (JObj [(''email'', JStr ''b@c.com''), (''age'', JNum (Num 25))])))
             (sample_request ''POST'' ''/users'') sample_world)) = Map.empty"
  using post_users_missing_username
    [of "sample_lib PostUsers (Inr (JObj [(''email'', JStr ''b@c.com''), (''age'', JNum (Num 25))]))"
        "sample_request ''POST'' ''/users''" "[(''email'', JStr ''b@c.com''), (''age'', JNum (Num 25))]"
        sample_world]
  by (simp add: obj_keys_def isNaN_def lt_zero_def)

text \<open>
  C8. A \<^verbatim>\<open>POST /posts\<close> request that reaches its route with a body whose \<^verbatim>\<open>userId\<close> is
  not a key of the users store is answered 404 with the body \<^verbatim>\<open>{error: "User not found"}\<close>,
  and the posts store (and the users store) is left as it was.
\<close>

theorem post_posts_unknown_user:
  assumes "cors_mw lib req = Next" and "json_mw lib req = Inr b"
    and "router lib req = PostPosts"
    and "b \<noteq> JUndefined" and "b \<noteq> JNull"
    and "\<not> users_has (users w) (prop_of b ''userId'')"
  shows "snd (app lib req w) =
       Some \<lparr>statusCode = 404, body = Json (JObj [(''error'', JStr ''User not found'')])\<rparr>
     \<and> posts (fst (app lib req w)) = posts w
     \<and> users (fst (app lib req w)) = users w
     \<and> map summary (durable (fst (app lib req w))) =
       map summary (durable w) @
         [(JStr ''info'', JStr ''REQUEST_RECEIVED'', JStr (uuid_src w (uuid_cnt w))),
          (JStr ''warn'', JStr ''POST_CREATION_FAILED'', JStr (uuid_src w (uuid_cnt w))),
          (JStr ''info'', JStr ''REQUEST_COMPLETED'', JStr (uuid_src w (uuid_cnt w)))]"
proof -
  let ?rid = "uuid_src w (uuid_cnt w)"
  let ?w1 = "snd (requestLogger lib req w)"
  let ?res = "\<lparr>statusCode = 404, body = Json (JObj [(''error'', JStr ''User not found'')])\<rparr>"
  have h: "\<not> users_has (users ?w1) (prop_of b ''userId'')"
    using assms(6) by (simp add: stores_requestLogger)
  have d: "dispatch lib req ?rid b ?w1 = post_posts lib ?rid b ?w1"
    using assms(3) by (simp add: dispatch_def)
  have p: "post_posts lib ?rid b ?w1 =
     (logger_log lib ''warn''
        [(''event'', JStr ''POST_CREATION_FAILED''),
         (''message'', JStr (warning_sign @ '' Post creation failed - User not found'')),
         (''requestId'', JStr ?rid),
         (''userId'', prop_of b ''userId'')] ?w1, Sent ?res)"
    using h assms(4,5) by (simp add: post_posts_def destructure_def Let_def)
  have "app lib req w =
     (on_finish lib req ?rid (clock_src w (clock_cnt w)) ?res (fst (post_posts lib ?rid b ?w1)), Some ?res)"
    using app_routed [OF assms(1) assms(2), of w ?res] d p by simp
  then show ?thesis
    by (simp add: p summary_on_finish summary_logger_log summary_requestLogger stores_on_finish
        stores_requestLogger)
qed

text \<open>C8, an instance: a post for the user \<^verbatim>\<open>nobody\<close> on a process without users.\<close>

theorem post_posts_unknown_user_witness:
  "\<not> users_has (users sample_world) (prop_of (JObj [(''userId'', JStr ''nobody''), (''title'', JStr ''t'')]) ''userId'')
   \<and> snd (app (sample_lib PostPosts (Inr (JObj [(''userId'', JStr ''nobody''), (''title'', JStr ''t'')])))
             (sample_request ''POST'' ''/posts'') sample_world) =
       Some \<lparr>statusCode = 404, body = Json (JObj [(''error'', JStr ''User not found'')])\<rparr>
   \<and> posts (fst (app (sample_lib PostPosts (Inr (JObj [(''userId'', JStr ''nobody''), (''title'', JStr ''t'')])))
             (sample_request ''POST'' ''/posts'') sample_world)) = Map.empty"
  using post_posts_unknown_user
    [of "sample_lib PostPosts (Inr (JObj [(''userId'', JStr ''nobody''), (''title'', JStr ''t'')]))"
        "sample_request ''POST'' ''/posts''" "JObj [(''userId'', JStr ''nobody''), (''title'', JStr ''t'')]"
        sample_world]
  by (simp add: users_has_def)

section \<open>Error simulation, for every parameter\<close>

text \<open>
  C9. For every value of the \<^verbatim>\<open>:type\<close> parameter, the \<^verbatim>\<open>switch\<close> of the handler throws, the
  handler catches the fault itself and answers 500 with \<^verbatim>\<open>{error: "Simulated error", type:
  <the parameter>, message: <the fault's message>}\<close>; for a value outside \<^verbatim>\<open>reference\<close>,
  \<^verbatim>\<open>type\<close>, \<^verbatim>\<open>syntax\<close>, \<^verbatim>\<open>custom\<close> the message is \<^verbatim>\<open>Unknown error type\<close>. A request that
  reaches the route gets that response, and no \<^verbatim>\<open>UNHANDLED_ERROR\<close> event is emitted for
  it: no fault of the handler comes to the global error handler.
\<close>

theorem simulate_error_never_escapes:
  "isl (simulate_switch lib errorType)
   \<and> snd (simulate_error lib requestId errorType w0) =
       Sent \<lparr>statusCode = 500,
             body = Json (JObj [(''error'', JStr ''Simulated error''), (''type'', JStr errorType),
                                (''message'', JStr (fault_message (projl (simulate_switch lib errorType))))])\<rparr>
   \<and> (errorType \<notin> {''reference'', ''type'', ''syntax'', ''custom''} \<longrightarrow>
        fault_message (projl (simulate_switch lib errorType)) = ''Unknown error type'')
   \<and> (cors_mw lib req = Next \<and> json_mw lib req = Inr b \<and> router lib req = SimulateError errorType \<longrightarrow>
        snd (app lib req w) =
          Some \<lparr>statusCode = 500,
                body = Json (JObj [(''error'', JStr ''Simulated error''), (''type'', JStr errorType),
                                   (''message'', JStr (fault_message (projl (simulate_switch lib errorType))))])\<rparr>
      \<and> attr_of ''UNHANDLED_ERROR'' ''requestId'' (durable (fst (app lib req w))) =
          attr_of ''UNHANDLED_ERROR'' ''requestId'' (durable w))"
proof -
  have m: "errorType \<notin> {''reference'', ''type'', ''syntax'', ''custom''} \<Longrightarrow>
      fault_message (projl (simulate_switch lib errorType)) = ''Unknown error type''"
    by (simp add: simulate_switch_def new_Error_def)
  have a: "snd (app lib req w) =
          Some \<lparr>statusCode = 500,
                body = Json (JObj [(''error'', JStr ''Simulated error''), (''type'', JStr errorType),
                                   (''message'', JStr (fault_message (projl (simulate_switch lib errorType))))])\<rparr>
      \<and> attr_of ''UNHANDLED_ERROR'' ''requestId'' (durable (fst (app lib req w))) =
          attr_of ''UNHANDLED_ERROR'' ''requestId'' (durable w)"
    if c: "cors_mw lib req = Next" and j: "json_mw lib req = Inr b"
      and r: "router lib req = SimulateError errorType"
  proof -
    have "dispatch lib req (uuid_src w (uuid_cnt w)) b (snd (requestLogger lib req w)) =
        simulate_error lib (uuid_src w (uuid_cnt w)) errorType (snd (requestLogger lib req w))"
      using r by (simp add: dispatch_def)
    then have "snd (app lib req w) =
          Some \<lparr>statusCode = 500,
                body = Json (JObj [(''error'', JStr ''Simulated error''), (''type'', JStr errorType),
                                   (''message'', JStr (fault_message (projl (simulate_switch lib errorType))))])\<rparr>"
      using app_routed [OF c j, of w] by (simp add: simulate_error_result)
    moreover have "\<not> reaches_errorHandler lib req"
      using c j by (simp add: reaches_errorHandler_def)
    ultimately show ?thesis
      by (simp add: app_attr lifecycle_def)
  qed
  from m a show ?thesis
    by (simp add: simulate_switch_throws simulate_error_result)
qed

text \<open>C9, an instance: the parameter \<^verbatim>\<open>teapot\<close>.\<close>

theorem simulate_error_never_escapes_witness:
  "''teapot'' \<notin> {''reference'', ''type'', ''syntax'', ''custom''}
   \<and> snd (app (sample_lib (SimulateError ''teapot'') (Inr (JObj [])))
             (sample_request ''GET'' ''/simulate-error/teapot'') sample_world) =
       Some \<lparr>statusCode = 500,
             body = Json (JObj [(''error'', JStr ''Simulated error''), (''type'', JStr ''teapot''),
                                (''message'', JStr ''Unknown error type'')])\<rparr>
   \<and> attr_of ''UNHANDLED_ERROR'' ''requestId''
       (durable (fst (app (sample_lib (SimulateError ''teapot'') (Inr (JObj [])))
             (sample_request ''GET'' ''/simulate-error/teapot'') sample_world))) = []"
  using simulate_error_never_escapes [of "sample_lib (SimulateError ''teapot'') (Inr (JObj []))"
      "''teapot''" "''id-0''" sample_world "sample_request ''GET'' ''/simulate-error/teapot''"
      "JObj []" sample_world]
  by simp

section \<open>Validation of a new user\<close>

text \<open>
  C10 (amended). The validation pushes its messages in the fixed order username, email,
  age. The age check runs only when the age is truthy, so an absent age and an age of 0
  give no age error. A truthy age gives \<^verbatim>\<open>Invalid age\<close> exactly when its conversion to a
  number is NaN (\<^verbatim>\<open>isNaN(age)\<close>) or is below zero; in particular every negative number is
  rejected, and a truthy age that converts to a non-negative number is accepted whatever
  its type.
\<close>

theorem validation_rules:
  "validate lib username email JUndefined =
     (if truthy username then [] else [JStr ''Username is required'']) @
     (if truthy email then [] else [JStr ''Email is required''])
   \<and> validate lib username email age =
     validate lib username email JUndefined @
     (if truthy age \<and> (isNaN lib age \<or> lt_zero lib age) then [JStr ''Invalid age''] else [])
   \<and> validate lib username email (JNum (Num 0)) = validate lib username email JUndefined
   \<and> (a < 0 \<longrightarrow>
        validate lib username email (JNum (Num a)) =
          validate lib username email JUndefined @ [JStr ''Invalid age''])
   \<and> (truthy age \<and> isNaN lib age \<longrightarrow>
        validate lib username email age = validate lib username email JUndefined @ [JStr ''Invalid age''])
   \<and> (truthy age \<and> \<not> isNaN lib age \<and> \<not> lt_zero lib age \<longrightarrow>
        validate lib username email age = validate lib username email JUndefined)"
  by (simp add: validate_append isNaN_def lt_zero_def)

text \<open>C10, three instances: a negative age with both names missing, an age that converts
  to NaN, and the age 25.\<close>

theorem validation_rules_witness:
  "(-1 :: rat) < 0
   \<and> validate (sample_lib PostUsers (Inr JNull)) JUndefined JUndefined (JNum (Num (-1))) =
       [JStr ''Username is required'', JStr ''Email is required'', JStr ''Invalid age'']
   \<and> truthy (JStr ''abc'') \<and> isNaN (sample_lib PostUsers (Inr JNull)) (JStr ''abc'')
   \<and> validate (sample_lib PostUsers (Inr JNull)) (JStr ''a'') (JStr ''b@c.com'') (JStr ''abc'') =
       [JStr ''Invalid age'']
   \<and> truthy (JNum (Num 25)) \<and> \<not> isNaN (sample_lib PostUsers (Inr JNull)) (JNum (Num 25))
   \<and> \<not> lt_zero (sample_lib PostUsers (Inr JNull)) (JNum (Num 25))
   \<and> validate (sample_lib PostUsers (Inr JNull)) (JStr ''a'') (JStr ''b@c.com'') (JNum (Num 25)) = []"
  using validation_rules [of "sample_lib PostUsers (Inr JNull)" JUndefined JUndefined "JNum (Num (-1))" "-1"]
    validation_rules [of "sample_lib PostUsers (Inr JNull)" "JStr ''a''" "JStr ''b@c.com''" "JStr ''abc''" "-1"]
    validation_rules [of "sample_lib PostUsers (Inr JNull)" "JStr ''a''" "JStr ''b@c.com''" "JNum (Num 25)" "-1"]
  by (simp add: isNaN_def lt_zero_def)

text \<open>C10 as stated fails: the age \<^verbatim>\<open>true\<close> is truthy and is not a number, and the
  validation accepts it (\<^verbatim>\<open>isNaN(true)\<close> is false, since \<^verbatim>\<open>true\<close> converts to 1): the
  request is answered 201.\<close>

theorem boolean_age_accepted_counterexample:
  "truthy (JBool True) \<and> \<not> is_number (JBool True)
   \<and> validate (sample_lib PostUsers (Inr JNull)) (JStr ''a'') (JStr ''b@c.com'') (JBool True) = []
   \<and> map_option statusCode
        (snd (app (sample_lib PostUsers
                     (Inr (JObj [(''username'', JStr ''a''), (''email'', JStr ''b@c.com''), (''age'', JBool True)])))
                (sample_request ''POST'' ''/users'') sample_world)) = Some 201"
proof -
  have "snd (dispatch (sample_lib PostUsers
                     (Inr (JObj [(''username'', JStr ''a''), (''email'', JStr ''b@c.com''), (''age'', JBool True)])))
                (sample_request ''POST'' ''/users'') (uuid_src sample_world (uuid_cnt sample_world))
                (JObj [(''username'', JStr ''a''), (''email'', JStr ''b@c.com''), (''age'', JBool True)])
                (snd (requestLogger (sample_lib PostUsers
                     (Inr (JObj [(''username'', JStr ''a''), (''email'', JStr ''b@c.com''), (''age'', JBool True)])))
                (sample_request ''POST'' ''/users'') sample_world)))
     = Sent \<lparr>statusCode = 201,
             body = Json (JObj [(''id'', JStr ''id-1''), (''username'', JStr ''a''), (''email'', JStr ''b@c.com''),
                                (''age'', JBool True), (''createdAt'', JDate 1015)])\<rparr>"
    by (simp add: dispatch_def post_users_def destructure_def validate_def isNaN_def lt_zero_def run_defs
        requestLogger_def sample_world_def Number_toString_def)
  then show ?thesis
    using app_routed [of "sample_lib PostUsers
                     (Inr (JObj [(''username'', JStr ''a''), (''email'', JStr ''b@c.com''), (''age'', JBool True)]))"
        "sample_request ''POST'' ''/users''"
        "JObj [(''username'', JStr ''a''), (''email'', JStr ''b@c.com''), (''age'', JBool True)]" sample_world]
    by (simp add: is_number_def validate_def isNaN_def lt_zero_def)
qed

end
